theory Spec2Isabelle
  imports Complex_Main
begin

section \<open>Pong: a shallow embedding of \<^verbatim>\<open>src/pong.py\<close>\<close>

text \<open>
  The program keeps its geometry in \<^verbatim>\<open>pygame.Rect\<close> values (integer x, y, width and
  height) and its velocities in Python floats. Here a rectangle is a record of four
  integers, a float is a real number (rounding is not modelled), and every random draw
  and every clock reading is an argument of the function that makes it.

  pygame stores the four fields as 32-bit C integers. \<^verbatim>\<open>Paddle.move\<close> takes a delta of
  any size, so the model has that range where the delta reaches it: the assignment to
  \<^verbatim>\<open>rect.y\<close> raises \<^verbatim>\<open>TypeError\<close> outside the range, and the sum behind \<^verbatim>\<open>rect.bottom\<close>
  wraps. The ball moves by its velocity, at most \<open>BALL_SPEED_MAX\<close> a frame, and is
  reset once it has left the field; its movement and the horizontal edges are
  integer arithmetic without the range.
\<close>

subsection \<open>Configuration and constants\<close>

definition WIDTH :: int where "WIDTH = 800"
definition HEIGHT :: int where "HEIGHT = 600"
definition PADDLE_WIDTH :: int where "PADDLE_WIDTH = 12"
definition PADDLE_HEIGHT :: int where "PADDLE_HEIGHT = 100"
definition PADDLE_SPEED :: int where "PADDLE_SPEED = 7"
definition AI_PADDLE_SPEED :: int where "AI_PADDLE_SPEED = 6"
definition BALL_SIZE :: int where "BALL_SIZE = 12"
definition BALL_SPEED_INITIAL :: real where "BALL_SPEED_INITIAL = 6"
definition BALL_SPEED_MAX :: real where "BALL_SPEED_MAX = 12"
definition BALL_SPEED_INCREMENT :: real where "BALL_SPEED_INCREMENT = 35 / 100"

subsection \<open>Python and pygame primitives\<close>

datatype error = ZeroDivisionError | TypeError

text \<open>Python's \<^verbatim>\<open>int(x)\<close> on a float: truncation toward zero.\<close>

definition py_int :: "real \<Rightarrow> int" where
  "py_int x = (if 0 \<le> x then \<lfloor>x\<rfloor> else \<lceil>x\<rceil>)"

text \<open>
  Half of a width or height as pygame computes it for the centre of a rectangle, by
  the shift \<^verbatim>\<open>w >> 1\<close>: the floor of the half.
\<close>

definition half :: "int \<Rightarrow> int" where
  "half n = n div 2"

text \<open>
  The range of a C \<^verbatim>\<open>int\<close>, and the value a sum of two of them wraps to.
\<close>

definition INT_MIN :: int where "INT_MIN = - 2147483648"
definition INT_MAX :: int where "INT_MAX = 2147483647"

definition c_int :: "int \<Rightarrow> bool" where
  "c_int v = (INT_MIN \<le> v \<and> v \<le> INT_MAX)"

definition wrap_int :: "int \<Rightarrow> int" where
  "wrap_int v = (v - INT_MIN) mod 4294967296 + INT_MIN"

record rect =
  rx :: int
  ry :: int
  rw :: int
  rh :: int

definition rect_top :: "rect \<Rightarrow> int" where "rect_top r = ry r"
definition rect_bottom :: "rect \<Rightarrow> int" where "rect_bottom r = wrap_int (ry r + rh r)"
definition rect_left :: "rect \<Rightarrow> int" where "rect_left r = rx r"
definition rect_right :: "rect \<Rightarrow> int" where "rect_right r = rx r + rw r"
definition rect_centerx :: "rect \<Rightarrow> int" where "rect_centerx r = rx r + half (rw r)"
definition rect_centery :: "rect \<Rightarrow> int" where "rect_centery r = ry r + half (rh r)"

text \<open>A rectangle as pygame can hold it: each field is a C \<^verbatim>\<open>int\<close>.\<close>

definition valid_rect :: "rect \<Rightarrow> bool" where
  "valid_rect r = (c_int (rx r) \<and> c_int (ry r) \<and> c_int (rw r) \<and> c_int (rh r))"

text \<open>
  The assignment \<^verbatim>\<open>rect.y = v\<close> of a Python integer: \<^verbatim>\<open>TypeError\<close> when \<open>v\<close> is not a
  C \<^verbatim>\<open>int\<close>.
\<close>

definition set_y :: "int \<Rightarrow> rect \<Rightarrow> error + rect" where
  "set_y v r = (if c_int v then Inr (r\<lparr>ry := v\<rparr>) else Inl TypeError)"

definition set_top :: "int \<Rightarrow> rect \<Rightarrow> rect" where
  "set_top v r = r\<lparr>ry := v\<rparr>"
definition set_bottom :: "int \<Rightarrow> rect \<Rightarrow> rect" where
  "set_bottom v r = r\<lparr>ry := wrap_int (v - rh r)\<rparr>"
definition set_left :: "int \<Rightarrow> rect \<Rightarrow> rect" where
  "set_left v r = r\<lparr>rx := v\<rparr>"
definition set_right :: "int \<Rightarrow> rect \<Rightarrow> rect" where
  "set_right v r = r\<lparr>rx := v - rw r\<rparr>"
definition set_center :: "int \<Rightarrow> int \<Rightarrow> rect \<Rightarrow> rect" where
  "set_center cx cy r = r\<lparr>rx := cx - half (rw r), ry := cy - half (rh r)\<rparr>"

text \<open>
  \<^verbatim>\<open>Rect.colliderect\<close> of pygame 2: a rectangle of zero width or height collides with
  nothing; otherwise the two extents overlap strictly on both axes.
\<close>

definition colliderect :: "rect \<Rightarrow> rect \<Rightarrow> bool" where
  "colliderect a b =
     (if rw a = 0 \<or> rh a = 0 \<or> rw b = 0 \<or> rh b = 0 then False
      else min (rx a) (rx a + rw a) < max (rx b) (rx b + rw b)
         \<and> min (ry a) (ry a + rh a) < max (ry b) (ry b + rh b)
         \<and> max (rx a) (rx a + rw a) > min (rx b) (rx b + rw b)
         \<and> max (ry a) (ry a + rh a) > min (ry b) (ry b + rh b))"

subsection \<open>Paddle\<close>

record paddle =
  p_rect :: rect
  p_speed :: int

text \<open>The dataclass constructor: it stores its arguments and has no raise.\<close>

definition Paddle :: "rect \<Rightarrow> int \<Rightarrow> error + paddle" where
  "Paddle r s = Inr \<lparr>p_rect = r, p_speed = s\<rparr>"

definition clamp_to_screen :: "paddle \<Rightarrow> paddle" where
  "clamp_to_screen p =
     (let p1 = (if rect_top (p_rect p) < 0 then p\<lparr>p_rect := set_top 0 (p_rect p)\<rparr> else p)
      in if rect_bottom (p_rect p1) > HEIGHT
         then p1\<lparr>p_rect := set_bottom HEIGHT (p_rect p1)\<rparr> else p1)"

text \<open>
  \<^verbatim>\<open>Paddle.move\<close>: \<^verbatim>\<open>self.rect.y += int(dy)\<close> adds as Python integers and assigns the
  sum; when the assignment raises, the clamp is not reached.
\<close>

definition move :: "real \<Rightarrow> paddle \<Rightarrow> error + paddle" where
  "move dy p =
     (case set_y (ry (p_rect p) + py_int dy) (p_rect p) of
        Inl e \<Rightarrow> Inl e
      | Inr r \<Rightarrow> Inr (clamp_to_screen (p\<lparr>p_rect := r\<rparr>)))"

subsection \<open>Ball\<close>

record ball =
  rect :: rect
  vx :: real
  vy :: real
  speed :: real

text \<open>
  \<^verbatim>\<open>Ball.__init__\<close>: \<open>angle\<close> is the draw of \<^verbatim>\<open>random.uniform\<close> and \<open>direction\<close> the
  draw of \<^verbatim>\<open>random.choice([-1, 1])\<close>. The constructor has no raise.
\<close>

definition Ball :: "rect \<Rightarrow> real \<Rightarrow> real \<Rightarrow> int \<Rightarrow> error + ball" where
  "Ball r sp angle direction =
     Inr \<lparr>rect = r, vx = cos angle * sp * real_of_int direction,
          vy = sin angle * sp, speed = sp\<rparr>"

text \<open>\<^verbatim>\<open>Ball.reset\<close>: \<open>angle\<close> is the draw of \<^verbatim>\<open>random.uniform\<close>.\<close>

definition reset :: "int \<Rightarrow> real \<Rightarrow> ball \<Rightarrow> ball" where
  "reset direction angle b =
     b\<lparr>rect := set_center (WIDTH div 2) (HEIGHT div 2) (rect b),
       speed := BALL_SPEED_INITIAL,
       vx := cos angle * BALL_SPEED_INITIAL * real_of_int direction,
       vy := sin angle * BALL_SPEED_INITIAL\<rparr>"

text \<open>
  \<^verbatim>\<open>Ball._bounce_off_paddle\<close>. The division by half the paddle's height raises
  \<^verbatim>\<open>ZeroDivisionError\<close> when that height is zero.
\<close>

definition bounce_offset :: "paddle \<Rightarrow> ball \<Rightarrow> real" where
  "bounce_offset p b =
     max (- 1) (min 1
       (real_of_int (rect_centery (rect b) - rect_centery (p_rect p))
          / (real_of_int (rh (p_rect p)) / 2)))"

definition bounce_angle :: "paddle \<Rightarrow> ball \<Rightarrow> real" where
  "bounce_angle p b = bounce_offset p b * (45 / 100 * pi)"

definition bounce_off_paddle :: "paddle \<Rightarrow> bool \<Rightarrow> ball \<Rightarrow> error + ball" where
  "bounce_off_paddle p is_right b =
     (let b1 = (if is_right then b\<lparr>rect := set_right (rect_left (p_rect p)) (rect b)\<rparr>
                else b\<lparr>rect := set_left (rect_right (p_rect p)) (rect b)\<rparr>)
      in if rh (p_rect p) = 0 then Inl ZeroDivisionError
         else
           let sp = min BALL_SPEED_MAX (speed b1 + BALL_SPEED_INCREMENT);
               angle = bounce_angle p b1;
               direction = (if \<not> is_right then 1 else - 1)
           in Inr (b1\<lparr>speed := sp, vx := cos angle * sp * direction,
                      vy := sin angle * sp\<rparr>))"

text \<open>\<^verbatim>\<open>Ball.update\<close>, phase by phase in the order of the source.\<close>

definition move_ball :: "ball \<Rightarrow> ball" where
  "move_ball b =
     b\<lparr>rect := (rect b)\<lparr>rx := rx (rect b) + py_int (vx b),
                         ry := ry (rect b) + py_int (vy b)\<rparr>\<rparr>"

definition wall_collide :: "ball \<Rightarrow> ball" where
  "wall_collide b =
     (if rect_top (rect b) \<le> 0 then b\<lparr>rect := set_top 0 (rect b), vy := vy b * (- 1)\<rparr>
      else if rect_bottom (rect b) \<ge> HEIGHT
           then b\<lparr>rect := set_bottom HEIGHT (rect b), vy := vy b * (- 1)\<rparr>
      else b)"

definition paddle_collide :: "paddle \<Rightarrow> paddle \<Rightarrow> ball \<Rightarrow> error + ball" where
  "paddle_collide lp rp b =
     (if colliderect (rect b) (p_rect lp) \<and> vx b < 0 then bounce_off_paddle lp False b
      else if colliderect (rect b) (p_rect rp) \<and> vx b > 0 then bounce_off_paddle rp True b
      else Inr b)"

definition before_scoring :: "paddle \<Rightarrow> paddle \<Rightarrow> ball \<Rightarrow> error + ball" where
  "before_scoring lp rp b = paddle_collide lp rp (wall_collide (move_ball b))"

definition scoring :: "real \<Rightarrow> ball \<Rightarrow> ball \<times> int \<times> int" where
  "scoring angle b =
     (if rect_right (rect b) < 0 then (reset (- 1) angle b, 0, 1)
      else if rect_left (rect b) > WIDTH then (reset 1 angle b, 1, 0)
      else (b, 0, 0))"

definition update :: "paddle \<Rightarrow> paddle \<Rightarrow> real \<Rightarrow> ball \<Rightarrow> error + (ball \<times> int \<times> int)" where
  "update lp rp angle b =
     (case before_scoring lp rp b of
        Inl e \<Rightarrow> Inl e
      | Inr b1 \<Rightarrow> Inr (scoring angle b1))"

text \<open>
  A sequence of operations on one ball. An exception ends the run, as it ends the
  program; the score deltas of an update are dropped here.
\<close>

datatype ball_op = Bounce paddle bool | Reset int real | Update paddle paddle real

fun apply_op :: "ball_op \<Rightarrow> ball \<Rightarrow> error + ball" where
  "apply_op (Bounce p is_right) b = bounce_off_paddle p is_right b"
| "apply_op (Reset direction angle) b = Inr (reset direction angle b)"
| "apply_op (Update lp rp angle) b =
     (case update lp rp angle b of Inl e \<Rightarrow> Inl e | Inr (b', sl, sr) \<Rightarrow> Inr b')"

fun run :: "ball_op list \<Rightarrow> ball \<Rightarrow> error + ball" where
  "run [] b = Inr b"
| "run (x # xs) b = (case apply_op x b of Inl e \<Rightarrow> Inl e | Inr b' \<Rightarrow> run xs b')"

text \<open>The serve direction handed to \<^verbatim>\<open>reset\<close> is \<open>+1\<close> or \<open>-1\<close>.\<close>

fun unit_direction :: "ball_op \<Rightarrow> bool" where
  "unit_direction (Reset direction angle) = (direction = 1 \<or> direction = - 1)"
| "unit_direction _ = True"

text \<open>The bounce divides by half the paddle's height, so that height must not be zero.\<close>

fun bounce_defined :: "ball_op \<Rightarrow> bool" where
  "bounce_defined (Bounce p is_right) = (rh (p_rect p) \<noteq> 0)"
| "bounce_defined _ = True"

subsection \<open>Invariants of the ball\<close>

definition speed_ok :: "ball \<Rightarrow> bool" where
  "speed_ok b = (BALL_SPEED_INITIAL \<le> speed b \<and> speed b \<le> BALL_SPEED_MAX)"

definition magnitude_ok :: "ball \<Rightarrow> bool" where
  "magnitude_ok b = (sqrt ((vx b)\<^sup>2 + (vy b)\<^sup>2) = speed b)"

subsection \<open>AIPaddleController\<close>

text \<open>
  The controller's own fields. Its paddle and its ball are references to the objects
  of the game loop, so they are arguments of \<open>AI_update\<close>, which returns the controller
  and the paddle it has moved; the ball is only read. The controller's fields are
  written before \<^verbatim>\<open>move\<close> is called, so the controller is returned also when \<^verbatim>\<open>move\<close>
  raises, and the error stands in the paddle's place.
\<close>

record ai =
  update_interval_ms :: int
  last_update_time :: int
  target_center_y :: real
  center_bias :: real

definition AIPaddleController :: ai where
  "AIPaddleController =
     \<lparr>update_interval_ms = 120, last_update_time = 0,
      target_center_y = real_of_int (HEIGHT div 2), center_bias = 15 / 100\<rparr>"

text \<open>
  \<^verbatim>\<open>random.gauss(mu, sigma)\<close> returns \<open>mu + z * sigma\<close> for a standard normal draw \<open>z\<close>;
  the draw is an argument.
\<close>

definition gauss :: "real \<Rightarrow> real \<Rightarrow> real \<Rightarrow> real" where
  "gauss mu sigma z = mu + z * sigma"

definition ai_sigma :: "ball \<Rightarrow> real" where
  "ai_sigma b =
     (let distance_x = max 1 (WIDTH - rect_centerx (rect b));
          speed_factor = max 1 \<bar>vx b\<bar>
      in min 80 (8 + real_of_int distance_x / 20 + speed_factor * (12 / 10)))"

definition should_update :: "int \<Rightarrow> ai \<Rightarrow> bool" where
  "should_update now a = (now - last_update_time a \<ge> update_interval_ms a)"

definition retarget :: "int \<Rightarrow> real \<Rightarrow> ai \<Rightarrow> ball \<Rightarrow> ai" where
  "retarget now z a b =
     (if should_update now a then
        (if vx b > 0
         then a\<lparr>last_update_time := now,
                target_center_y :=
                  real_of_int (rect_centery (rect b)) + gauss 0 (ai_sigma b) z\<rparr>
         else a\<lparr>last_update_time := now,
                target_center_y :=
                  (1 - center_bias a) * target_center_y a
                  + center_bias a * (real_of_int HEIGHT / 2 + gauss 0 25 z)\<rparr>)
      else a)"

definition ai_dy :: "ai \<Rightarrow> paddle \<Rightarrow> real" where
  "ai_dy a p =
     (let dy = target_center_y a - real_of_int (rect_centery (p_rect p))
      in if \<bar>dy\<bar> > real_of_int (p_speed p)
         then (if dy > 0 then real_of_int AI_PADDLE_SPEED
               else - real_of_int AI_PADDLE_SPEED)
         else dy)"

definition AI_update ::
  "int \<Rightarrow> real \<Rightarrow> ai \<Rightarrow> ball \<Rightarrow> paddle \<Rightarrow> ai \<times> (error + paddle)" where
  "AI_update now z a b p =
     (let a1 = retarget now z a b in (a1, move (ai_dy a1 p) p))"

subsection \<open>The entities of \<^verbatim>\<open>main\<close>\<close>

definition left_paddle :: paddle where
  "left_paddle =
     \<lparr>p_rect = \<lparr>rx = 32, ry = HEIGHT div 2 - PADDLE_HEIGHT div 2,
                rw = PADDLE_WIDTH, rh = PADDLE_HEIGHT\<rparr>,
      p_speed = PADDLE_SPEED\<rparr>"

definition right_paddle :: paddle where
  "right_paddle =
     \<lparr>p_rect = \<lparr>rx = WIDTH - 32 - PADDLE_WIDTH, ry = HEIGHT div 2 - PADDLE_HEIGHT div 2,
                rw = PADDLE_WIDTH, rh = PADDLE_HEIGHT\<rparr>,
      p_speed = AI_PADDLE_SPEED\<rparr>"

definition ball_rect :: rect where
  "ball_rect =
     \<lparr>rx = WIDTH div 2 - BALL_SIZE div 2, ry = HEIGHT div 2 - BALL_SIZE div 2,
      rw = BALL_SIZE, rh = BALL_SIZE\<rparr>"

subsection \<open>Sample states\<close>

text \<open>A ball one frame before it leaves the field on the left, and one on the right.\<close>

definition ball_past_left :: ball where
  "ball_past_left =
     \<lparr>rect = \<lparr>rx = - 20, ry = 294, rw = 12, rh = 12\<rparr>, vx = - 6, vy = 0, speed = 6\<rparr>"

definition ball_past_right :: ball where
  "ball_past_right =
     \<lparr>rect = \<lparr>rx = 810, ry = 294, rw = 12, rh = 12\<rparr>, vx = 6, vy = 0, speed = 6\<rparr>"

text \<open>The ball at the centre of the field, served to the right and downward.\<close>

definition ball_in_play :: ball where
  "ball_in_play =
     \<lparr>rect = \<lparr>rx = 394, ry = 294, rw = 12, rh = 12\<rparr>,
      vx = 36 / 10, vy = 48 / 10, speed = 6\<rparr>"

text \<open>
  A ball overlapping the left paddle of \<^verbatim>\<open>main\<close> at the paddle's vertical centre, and
  one at the paddle's lower end.
\<close>

definition ball_at_left_paddle :: ball where
  "ball_at_left_paddle =
     \<lparr>rect = \<lparr>rx = 40, ry = 294, rw = 12, rh = 12\<rparr>, vx = - 6, vy = 0, speed = 6\<rparr>"

definition ball_at_paddle_edge :: ball where
  "ball_at_paddle_edge =
     \<lparr>rect = \<lparr>rx = 40, ry = 344, rw = 12, rh = 12\<rparr>, vx = - 6, vy = 0, speed = 6\<rparr>"

text \<open>
  A frame in play, a bounce off the left paddle, a serve to the right and a bounce off
  the right paddle.
\<close>

definition rally :: "ball_op list" where
  "rally = [Update left_paddle right_paddle 0, Bounce left_paddle False, Reset 1 0,
            Bounce right_paddle True]"


text \<open>A rectangle of negative width, higher than the field.\<close>

definition bad_rect :: rect where
  "bad_rect = \<lparr>rx = 0, ry = 0, rw = - 12, rh = 700\<rparr>"

subsection \<open>The noise formula in the words of the specification\<close>

text \<open>
  The specification's formula for the standard deviation of the aiming noise,
  \<^verbatim>\<open>min(max_sigma, base + distance/distance_divisor + speed * speed_weight)\<close>, with the
  constants of the source (80, 8, 20 and 1.2), as a function of the horizontal distance
  to the paddle and of the ball's speed.
\<close>

definition sigma_as_claimed :: "real \<Rightarrow> real \<Rightarrow> real" where
  "sigma_as_claimed distance sp = min 80 (8 + distance / 20 + sp * (12 / 10))"

section \<open>Properties\<close>

lemmas consts_defs =
  WIDTH_def HEIGHT_def PADDLE_WIDTH_def PADDLE_HEIGHT_def PADDLE_SPEED_def
  AI_PADDLE_SPEED_def BALL_SIZE_def BALL_SPEED_INITIAL_def BALL_SPEED_MAX_def
  BALL_SPEED_INCREMENT_def

lemmas rect_defs =
  rect_top_def rect_bottom_def rect_left_def rect_right_def rect_centerx_def
  rect_centery_def half_def
  set_top_def set_bottom_def set_left_def set_right_def set_center_def
  wrap_int_def INT_MIN_def

lemmas c_int_defs = INT_MIN_def INT_MAX_def c_int_def wrap_int_def valid_rect_def set_y_def

lemmas entity_defs = left_paddle_def right_paddle_def ball_rect_def

lemmas sample_defs =
  ball_past_left_def ball_past_right_def ball_in_play_def ball_at_left_paddle_def
  ball_at_paddle_edge_def

subsection \<open>Paddle.move\<close>

lemma py_int_of_int [simp]: "py_int (real_of_int n) = n"
  by (simp add: py_int_def)

lemma wrap_int_id: "c_int v \<Longrightarrow> wrap_int v = v"
  by (simp add: c_int_def wrap_int_def INT_MIN_def INT_MAX_def)

lemma wrap_int_over:
  assumes "INT_MAX < v" and "v \<le> INT_MAX + 2147483648"
  shows "wrap_int v = v - 4294967296"
proof -
  have "v + 2147483648 = (v - 2147483648) + 4294967296" by simp
  then have "(v + 2147483648) mod 4294967296 = (v - 2147483648) mod 4294967296"
    by (simp only: mod_add_self2)
  also have "\<dots> = v - 2147483648"
    using assms by (simp add: INT_MAX_def)
  finally show ?thesis
    by (simp add: wrap_int_def INT_MIN_def)
qed

lemma move_raises:
  "\<not> c_int (ry (p_rect p) + py_int dy) \<Longrightarrow> move dy p = Inl TypeError"
  by (simp add: move_def set_y_def)

lemma move_returns:
  assumes "c_int (ry (p_rect p) + py_int dy)"
  shows "move dy p =
     Inr (p\<lparr>p_rect := (p_rect p)\<lparr>ry :=
       (let y = max 0 (ry (p_rect p) + py_int dy)
        in if wrap_int (y + rh (p_rect p)) > HEIGHT then wrap_int (HEIGHT - rh (p_rect p))
           else y)\<rparr>\<rparr>)"
  using assms
  by (simp add: move_def set_y_def clamp_to_screen_def Let_def rect_top_def rect_bottom_def
      set_top_def set_bottom_def max_def)

text \<open>
  The clamp as integer arithmetic, when the moved top and the moved bottom are both
  C \<^verbatim>\<open>int\<close>s.
\<close>

lemma move_in_range:
  assumes v: "valid_rect (p_rect p)"
    and t: "c_int (ry (p_rect p) + py_int dy)"
    and b: "ry (p_rect p) + py_int dy + rh (p_rect p) \<le> INT_MAX"
  shows "move dy p =
     Inr (p\<lparr>p_rect := (p_rect p)\<lparr>ry :=
       (let y = max 0 (ry (p_rect p) + py_int dy)
        in if y + rh (p_rect p) > HEIGHT then HEIGHT - rh (p_rect p) else y)\<rparr>\<rparr>)"
proof -
  let ?h = "rh (p_rect p)"
  let ?y = "max 0 (ry (p_rect p) + py_int dy)"
  have h: "c_int ?h" using v by (simp add: valid_rect_def)
  have y: "0 \<le> ?y \<and> ?y \<le> INT_MAX"
    using t by (simp add: c_int_def INT_MAX_def)
  have "?y + ?h \<le> INT_MAX"
    using b h y by (auto simp: max_def c_int_def INT_MAX_def INT_MIN_def)
  then have s: "c_int (?y + ?h)"
    using h y by (simp add: c_int_def INT_MIN_def)
  then have w: "wrap_int (?y + ?h) = ?y + ?h" by (rule wrap_int_id)
  have "c_int (HEIGHT - ?h)" if "?y + ?h > HEIGHT"
    using that y h by (simp add: c_int_def INT_MIN_def INT_MAX_def HEIGHT_def)
  then have c: "wrap_int (HEIGHT - ?h) = HEIGHT - ?h" if "?y + ?h > HEIGHT"
    using that by (simp add: wrap_int_id)
  show ?thesis
    unfolding move_returns [OF t] Let_def w using c by simp
qed

text \<open>
  Claim C9, as amended. Take a paddle whose rectangle holds C \<^verbatim>\<open>int\<close>s and whose height
  is at most the field height. When the moved top \<open>y + int(dy)\<close> and the moved bottom
  \<open>y + int(dy) + height\<close> are within the 32-bit range of \<^verbatim>\<open>pygame.Rect\<close>, \<open>move dy\<close>
  returns and the paddle's rectangle lies within the vertical bounds of the field: its
  top is at least 0 and its bottom, which is then the sum \<open>y + height\<close>, at most
  \<open>HEIGHT\<close>. When the moved top is outside the range, \<open>move dy\<close> raises \<^verbatim>\<open>TypeError\<close>. When
  the moved top is within the range and the moved bottom beyond it, \<open>move dy\<close> returns
  with the paddle left at the moved top, unclamped and below the field.
\<close>

theorem move_stays_in_field:
  assumes "valid_rect (p_rect p)" and "rh (p_rect p) \<le> HEIGHT"
  shows "(c_int (ry (p_rect p) + py_int dy)
          \<and> ry (p_rect p) + py_int dy + rh (p_rect p) \<le> INT_MAX \<longrightarrow>
            (\<exists>p'. move dy p = Inr p' \<and> 0 \<le> rect_top (p_rect p')
               \<and> rect_bottom (p_rect p') \<le> HEIGHT
               \<and> rect_bottom (p_rect p') = ry (p_rect p') + rh (p_rect p')))
       \<and> (\<not> c_int (ry (p_rect p) + py_int dy) \<longrightarrow> move dy p = Inl TypeError)
       \<and> (c_int (ry (p_rect p) + py_int dy)
          \<and> INT_MAX < ry (p_rect p) + py_int dy + rh (p_rect p) \<longrightarrow>
            (\<exists>p'. move dy p = Inr p' \<and> ry (p_rect p') = ry (p_rect p) + py_int dy
               \<and> HEIGHT < ry (p_rect p') + rh (p_rect p')))"
proof (intro conjI impI)
  assume a: "c_int (ry (p_rect p) + py_int dy)
      \<and> ry (p_rect p) + py_int dy + rh (p_rect p) \<le> INT_MAX"
  let ?y' = "let y = max 0 (ry (p_rect p) + py_int dy)
             in if y + rh (p_rect p) > HEIGHT then HEIGHT - rh (p_rect p) else y"
  let ?p' = "p\<lparr>p_rect := (p_rect p)\<lparr>ry := ?y'\<rparr>\<rparr>"
  have m: "move dy p = Inr ?p'"
    using assms(1) a by (simp add: move_in_range)
  have lo: "0 \<le> ?y'" using assms(2) by (simp add: Let_def)
  have hi: "?y' + rh (p_rect p) \<le> HEIGHT" by (simp add: Let_def)
  have "INT_MIN \<le> rh (p_rect p)"
    using assms(1) by (simp add: valid_rect_def c_int_def)
  then have "c_int (?y' + rh (p_rect p))"
    using lo hi by (simp add: c_int_def INT_MIN_def INT_MAX_def HEIGHT_def)
  then have w: "wrap_int (?y' + rh (p_rect p)) = ?y' + rh (p_rect p)"
    by (rule wrap_int_id)
  have "0 \<le> rect_top (p_rect ?p') \<and> rect_bottom (p_rect ?p') \<le> HEIGHT
      \<and> rect_bottom (p_rect ?p') = ry (p_rect ?p') + rh (p_rect ?p')"
    using lo hi w by (simp add: rect_top_def rect_bottom_def)
  with m show "\<exists>p'. move dy p = Inr p' \<and> 0 \<le> rect_top (p_rect p')
      \<and> rect_bottom (p_rect p') \<le> HEIGHT
      \<and> rect_bottom (p_rect p') = ry (p_rect p') + rh (p_rect p')"
    by blast
next
  assume "\<not> c_int (ry (p_rect p) + py_int dy)"
  then show "move dy p = Inl TypeError" by (rule move_raises)
next
  assume a: "c_int (ry (p_rect p) + py_int dy)
      \<and> INT_MAX < ry (p_rect p) + py_int dy + rh (p_rect p)"
  let ?y1 = "ry (p_rect p) + py_int dy"
  let ?h = "rh (p_rect p)"
  have y1: "HEIGHT < ?y1"
    using a assms(2) by (simp add: INT_MAX_def HEIGHT_def)
  then have mx: "max 0 ?y1 = ?y1" by (simp add: HEIGHT_def)
  have "?y1 + ?h \<le> INT_MAX + 2147483648"
    using a assms(2) by (simp add: c_int_def INT_MAX_def HEIGHT_def)
  then have "wrap_int (?y1 + ?h) = ?y1 + ?h - 4294967296"
    using a by (simp add: wrap_int_over)
  then have w: "\<not> wrap_int (?y1 + ?h) > HEIGHT"
    using a assms(2) by (simp add: c_int_def INT_MAX_def HEIGHT_def)
  have m: "move dy p = Inr (p\<lparr>p_rect := (p_rect p)\<lparr>ry := ?y1\<rparr>\<rparr>)"
    using a w by (simp add: move_returns Let_def mx)
  have "HEIGHT < ?y1 + ?h"
    using a by (simp add: INT_MAX_def HEIGHT_def)
  with m show "\<exists>p'. move dy p = Inr p' \<and> ry (p_rect p') = ?y1
      \<and> HEIGHT < ry (p_rect p') + rh (p_rect p')"
    by simp
qed

theorem move_stays_in_field_witness:
  "valid_rect (p_rect left_paddle) \<and> rh (p_rect left_paddle) \<le> HEIGHT
   \<and> c_int (ry (p_rect left_paddle) + py_int 10000)
   \<and> ry (p_rect left_paddle) + py_int 10000 + rh (p_rect left_paddle) \<le> INT_MAX
   \<and> \<not> c_int (ry (p_rect left_paddle) + py_int 3000000000)
   \<and> c_int (ry (p_rect left_paddle) + py_int 2147483397)
   \<and> INT_MAX < ry (p_rect left_paddle) + py_int 2147483397 + rh (p_rect left_paddle)
   \<and> (\<exists>p'. move 10000 left_paddle = Inr p' \<and> 0 \<le> rect_top (p_rect p')
         \<and> rect_bottom (p_rect p') \<le> HEIGHT
         \<and> rect_bottom (p_rect p') = ry (p_rect p') + rh (p_rect p'))
   \<and> move 3000000000 left_paddle = Inl TypeError
   \<and> (\<exists>p'. move 2147483397 left_paddle = Inr p'
         \<and> ry (p_rect p') = ry (p_rect left_paddle) + py_int 2147483397
         \<and> HEIGHT < ry (p_rect p') + rh (p_rect p'))"
proof -
  have v: "valid_rect (p_rect left_paddle)"
    by (simp add: entity_defs consts_defs c_int_defs)
  have h: "rh (p_rect left_paddle) \<le> HEIGHT"
    by (simp add: entity_defs consts_defs)
  have a: "c_int (ry (p_rect left_paddle) + py_int 10000)
      \<and> ry (p_rect left_paddle) + py_int 10000 + rh (p_rect left_paddle) \<le> INT_MAX"
    by (simp add: entity_defs consts_defs c_int_defs py_int_def)
  have b: "\<not> c_int (ry (p_rect left_paddle) + py_int 3000000000)"
    by (simp add: entity_defs consts_defs c_int_defs py_int_def)
  have c: "c_int (ry (p_rect left_paddle) + py_int 2147483397)
      \<and> INT_MAX < ry (p_rect left_paddle) + py_int 2147483397 + rh (p_rect left_paddle)"
    by (simp add: entity_defs consts_defs c_int_defs py_int_def)
  note t1 = move_stays_in_field [OF v h, of 10000]
  note t2 = move_stays_in_field [OF v h, of 3000000000]
  note t3 = move_stays_in_field [OF v h, of 2147483397]
  note r1 = t1 [THEN conjunct1, THEN mp, OF a]
  note r2 = t2 [THEN conjunct2, THEN conjunct1, THEN mp, OF b]
  note r3 = t3 [THEN conjunct2, THEN conjunct2, THEN mp, OF c]
  show ?thesis
    by (intro conjI v h a [THEN conjunct1] a [THEN conjunct2] b c [THEN conjunct1]
        c [THEN conjunct2] r1 r2 r3)
qed

text \<open>
  The claim as stated, a paddle within the field after any real delta and a clamp that
  never fails, fails on the left paddle of \<^verbatim>\<open>main\<close> (top 250, height 100): a delta of
  3000000000 raises \<^verbatim>\<open>TypeError\<close>, and a delta of 2147483397 leaves the paddle at
  2147483647, where \<^verbatim>\<open>rect.bottom\<close> has wrapped to a negative number and the clamp does
  not fire.
\<close>

theorem move_any_delta_counterexample:
  "rh (p_rect left_paddle) \<le> HEIGHT
   \<and> move 3000000000 left_paddle = Inl TypeError
   \<and> move 2147483397 left_paddle =
       Inr \<lparr>p_rect = \<lparr>rx = 32, ry = 2147483647, rw = 12, rh = 100\<rparr>, p_speed = 7\<rparr>
   \<and> rect_bottom \<lparr>rx = 32, ry = 2147483647, rw = 12, rh = 100\<rparr> = - 2147483549
   \<and> HEIGHT < 2147483647 + 100"
  by (simp add: move_def set_y_def clamp_to_screen_def Let_def rect_defs entity_defs
      consts_defs py_int_def c_int_def INT_MIN_def INT_MAX_def wrap_int_def)

text \<open>
  Claim C8, as amended. \<open>move dy\<close> adds \<open>dy\<close> truncated toward zero (Python's
  \<^verbatim>\<open>int(dy)\<close>), not \<open>dy\<close> itself, to the vertical position. When the sum is outside the
  32-bit range of \<^verbatim>\<open>pygame.Rect\<close>, \<open>move dy\<close> raises \<^verbatim>\<open>TypeError\<close>. Otherwise it returns the
  paddle clamped: a negative top becomes 0, and after that a bottom beyond \<open>HEIGHT\<close>
  becomes \<open>HEIGHT\<close>, the bottom being the wrapped 32-bit sum of top and height; nothing
  but the vertical position changes. For a rectangle of C \<^verbatim>\<open>int\<close>s whose moved top and
  moved bottom are both within the range, the clamp is the one of integer arithmetic,
  and for such a paddle no higher than the field the rectangle then lies within
  \<open>[0, HEIGHT]\<close>.
\<close>

theorem move_truncates_then_clamps:
  "(\<not> c_int (ry (p_rect p) + py_int dy) \<longrightarrow> move dy p = Inl TypeError)
   \<and> (c_int (ry (p_rect p) + py_int dy) \<longrightarrow>
        (\<exists>p'. move dy p = Inr p'
           \<and> p_speed p' = p_speed p
           \<and> rx (p_rect p') = rx (p_rect p)
           \<and> rw (p_rect p') = rw (p_rect p)
           \<and> rh (p_rect p') = rh (p_rect p)
           \<and> ry (p_rect p') =
               (let y = max 0 (ry (p_rect p) + py_int dy)
                in if wrap_int (y + rh (p_rect p)) > HEIGHT
                   then wrap_int (HEIGHT - rh (p_rect p)) else y)))
   \<and> (valid_rect (p_rect p) \<and> c_int (ry (p_rect p) + py_int dy)
        \<and> ry (p_rect p) + py_int dy + rh (p_rect p) \<le> INT_MAX \<longrightarrow>
        (\<exists>p'. move dy p = Inr p'
           \<and> ry (p_rect p') =
               (let y = max 0 (ry (p_rect p) + py_int dy)
                in if y + rh (p_rect p) > HEIGHT then HEIGHT - rh (p_rect p) else y)
           \<and> (rh (p_rect p) \<le> HEIGHT \<longrightarrow>
                0 \<le> ry (p_rect p') \<and> ry (p_rect p') + rh (p_rect p') \<le> HEIGHT)))"
proof (intro conjI impI)
  assume "\<not> c_int (ry (p_rect p) + py_int dy)"
  then show "move dy p = Inl TypeError" by (rule move_raises)
next
  assume "c_int (ry (p_rect p) + py_int dy)"
  then show "\<exists>p'. move dy p = Inr p'
           \<and> p_speed p' = p_speed p
           \<and> rx (p_rect p') = rx (p_rect p)
           \<and> rw (p_rect p') = rw (p_rect p)
           \<and> rh (p_rect p') = rh (p_rect p)
           \<and> ry (p_rect p') =
               (let y = max 0 (ry (p_rect p) + py_int dy)
                in if wrap_int (y + rh (p_rect p)) > HEIGHT
                   then wrap_int (HEIGHT - rh (p_rect p)) else y)"
    by (simp add: move_returns)
next
  assume a: "valid_rect (p_rect p) \<and> c_int (ry (p_rect p) + py_int dy)
      \<and> ry (p_rect p) + py_int dy + rh (p_rect p) \<le> INT_MAX"
  then have "move dy p =
     Inr (p\<lparr>p_rect := (p_rect p)\<lparr>ry :=
       (let y = max 0 (ry (p_rect p) + py_int dy)
        in if y + rh (p_rect p) > HEIGHT then HEIGHT - rh (p_rect p) else y)\<rparr>\<rparr>)"
    by (simp add: move_in_range)
  then show "\<exists>p'. move dy p = Inr p'
           \<and> ry (p_rect p') =
               (let y = max 0 (ry (p_rect p) + py_int dy)
                in if y + rh (p_rect p) > HEIGHT then HEIGHT - rh (p_rect p) else y)
           \<and> (rh (p_rect p) \<le> HEIGHT \<longrightarrow>
                0 \<le> ry (p_rect p') \<and> ry (p_rect p') + rh (p_rect p') \<le> HEIGHT)"
    by (simp add: Let_def)
qed

theorem move_truncates_then_clamps_witness:
  "valid_rect (p_rect left_paddle) \<and> rh (p_rect left_paddle) \<le> HEIGHT
   \<and> c_int (ry (p_rect left_paddle) + py_int (7 / 2))
   \<and> ry (p_rect left_paddle) + py_int (7 / 2) + rh (p_rect left_paddle) \<le> INT_MAX
   \<and> \<not> c_int (ry (p_rect left_paddle) + py_int (- 3000000000))
   \<and> (\<exists>p'. move (7 / 2) left_paddle = Inr p' \<and> ry (p_rect p') = 253
         \<and> 0 \<le> ry (p_rect p') \<and> ry (p_rect p') + rh (p_rect p') \<le> HEIGHT)
   \<and> move (- 3000000000) left_paddle = Inl TypeError"
proof -
  have v: "valid_rect (p_rect left_paddle) \<and> rh (p_rect left_paddle) \<le> HEIGHT"
    by (simp add: entity_defs consts_defs c_int_defs)
  have a: "c_int (ry (p_rect left_paddle) + py_int (7 / 2))
      \<and> ry (p_rect left_paddle) + py_int (7 / 2) + rh (p_rect left_paddle) \<le> INT_MAX"
    by (simp add: entity_defs consts_defs c_int_defs py_int_def)
  have b: "\<not> c_int (ry (p_rect left_paddle) + py_int (- 3000000000))"
    by (simp add: entity_defs consts_defs c_int_defs py_int_def)
  have y: "(let y = max 0 (ry (p_rect left_paddle) + py_int (7 / 2))
            in if y + rh (p_rect left_paddle) > HEIGHT
               then HEIGHT - rh (p_rect left_paddle) else y) = 253"
    by (simp add: entity_defs consts_defs py_int_def Let_def)
  note t1 = move_truncates_then_clamps [of left_paddle "7 / 2"]
  note t2 = move_truncates_then_clamps [of left_paddle "- 3000000000"]
  have r1: "\<exists>p'. move (7 / 2) left_paddle = Inr p' \<and> ry (p_rect p') = 253
      \<and> 0 \<le> ry (p_rect p') \<and> ry (p_rect p') + rh (p_rect p') \<le> HEIGHT"
    using t1 v a unfolding y by blast
  have r2: "move (- 3000000000) left_paddle = Inl TypeError"
    using t2 b by blast
  show ?thesis
    using v a b r1 r2 by blast
qed

text \<open>
  The claim as stated fails for a fractional delta: moving the left paddle of \<^verbatim>\<open>main\<close>
  (top 250, bottom 350) by one half needs no clamping, and leaves it where it was.
\<close>

theorem move_adds_delta_counterexample:
  "0 \<le> real_of_int (rect_top (p_rect left_paddle)) + 1 / 2
   \<and> real_of_int (rect_bottom (p_rect left_paddle)) + 1 / 2 \<le> real_of_int HEIGHT
   \<and> move (1 / 2) left_paddle = Inr left_paddle
   \<and> real_of_int (ry (p_rect (projr (move (1 / 2) left_paddle))))
       \<noteq> real_of_int (ry (p_rect left_paddle)) + 1 / 2"
  by (simp add: move_def set_y_def clamp_to_screen_def Let_def rect_defs entity_defs
      consts_defs py_int_def c_int_def INT_MIN_def INT_MAX_def wrap_int_def)

subsection \<open>Ball.update\<close>

lemma colliderect_height: "colliderect a b \<Longrightarrow> rh b \<noteq> 0"
  by (auto simp: colliderect_def split: if_splits)

lemma bounce_returns:
  "rh (p_rect p) \<noteq> 0 \<Longrightarrow> \<exists>b'. bounce_off_paddle p is_right b = Inr b'"
  by (simp add: bounce_off_paddle_def Let_def)

lemma before_scoring_returns: "\<exists>b1. before_scoring lp rp b = Inr b1"
  unfolding before_scoring_def paddle_collide_def
  using colliderect_height bounce_returns by auto









subsection \<open>Ball._bounce_off_paddle\<close>

lemma bounce_offset_bounds: "- 1 \<le> bounce_offset p b \<and> bounce_offset p b \<le> 1"
  by (simp add: bounce_offset_def)

lemma bounce_angle_bounds:
  "- (45 / 100 * pi) \<le> bounce_angle p b \<and> bounce_angle p b \<le> 45 / 100 * pi"
proof -
  have "0 \<le> 45 / 100 * pi" by simp
  then show ?thesis
    using bounce_offset_bounds [of p b] mult_right_mono [of "bounce_offset p b" 1 "45 / 100 * pi"]
      mult_right_mono [of "- 1" "bounce_offset p b" "45 / 100 * pi"]
    by (simp add: bounce_angle_def)
qed

lemma bounce_result:
  assumes "rh (p_rect p) \<noteq> 0"
  shows "\<exists>b'. bounce_off_paddle p is_right b = Inr b'
     \<and> speed b' = min BALL_SPEED_MAX (speed b + BALL_SPEED_INCREMENT)
     \<and> vx b' = cos (bounce_angle p b) * speed b' * (if is_right then - 1 else 1)
     \<and> vy b' = sin (bounce_angle p b) * speed b'"
  using assms
  by (simp add: bounce_off_paddle_def Let_def set_left_def set_right_def
      bounce_angle_def bounce_offset_def rect_centery_def)

text \<open>
  Claim C5. For every ball of non-negative speed and every left paddle of non-zero
  height, the bounce returns a ball whose velocity is \<open>(cos angle * speed, sin angle *
  speed)\<close> for the bounce angle \<open>offset * 0.45 \<pi>\<close>. When the ball's vertical centre
  equals the paddle's, the offset is 0, the new \<open>vx\<close> is positive and the new \<open>vy\<close> is 0.
  The angle never exceeds \<open>0.45 \<pi>\<close> in magnitude, and an offset of \<open>+1\<close> or \<open>-1\<close> gives
  exactly that maximum.
\<close>

theorem centre_hit_bounces_horizontally:
  assumes "rh (p_rect p) \<noteq> 0" and "0 \<le> speed b"
  shows "\<exists>b'. bounce_off_paddle p False b = Inr b'
     \<and> vx b' = cos (bounce_angle p b) * speed b'
     \<and> vy b' = sin (bounce_angle p b) * speed b'
     \<and> \<bar>bounce_angle p b\<bar> \<le> 45 / 100 * pi
     \<and> (rect_centery (rect b) = rect_centery (p_rect p) \<longrightarrow>
           bounce_offset p b = 0 \<and> vx b' > 0 \<and> vy b' = 0)
     \<and> (bounce_offset p b = 1 \<longrightarrow> bounce_angle p b = 45 / 100 * pi)
     \<and> (bounce_offset p b = - 1 \<longrightarrow> bounce_angle p b = - (45 / 100 * pi))"
proof -
  obtain b' where b': "bounce_off_paddle p False b = Inr b'"
    and sp: "speed b' = min BALL_SPEED_MAX (speed b + BALL_SPEED_INCREMENT)"
    and x: "vx b' = cos (bounce_angle p b) * speed b'"
    and y: "vy b' = sin (bounce_angle p b) * speed b'"
    using bounce_result [OF assms(1), of False b] by auto
  have pos: "0 < speed b'"
    using assms(2) by (simp add: sp BALL_SPEED_MAX_def BALL_SPEED_INCREMENT_def)
  have centre: "bounce_offset p b = 0 \<and> vx b' > 0 \<and> vy b' = 0"
    if "rect_centery (rect b) = rect_centery (p_rect p)"
    using that pos by (simp add: x y bounce_angle_def bounce_offset_def)
  have bound: "\<bar>bounce_angle p b\<bar> \<le> 45 / 100 * pi"
    using bounce_angle_bounds [of p b] by linarith
  have up: "bounce_offset p b = 1 \<longrightarrow> bounce_angle p b = 45 / 100 * pi"
    by (simp add: bounce_angle_def)
  have down: "bounce_offset p b = - 1 \<longrightarrow> bounce_angle p b = - (45 / 100 * pi)"
    by (simp add: bounce_angle_def)
  show ?thesis
    using b' x y centre bound up down by blast
qed

theorem centre_hit_bounces_horizontally_witness:
  "rh (p_rect left_paddle) \<noteq> 0 \<and> 0 \<le> speed ball_at_left_paddle
   \<and> rect_centery (rect ball_at_left_paddle) = rect_centery (p_rect left_paddle)
   \<and> bounce_off_paddle left_paddle False ball_at_left_paddle =
       Inr \<lparr>rect = \<lparr>rx = 44, ry = 294, rw = 12, rh = 12\<rparr>,
            vx = 635 / 100, vy = 0, speed = 635 / 100\<rparr>
   \<and> bounce_offset left_paddle ball_at_paddle_edge = 1
   \<and> bounce_angle left_paddle ball_at_paddle_edge = 45 / 100 * pi"
  using centre_hit_bounces_horizontally [of left_paddle ball_at_left_paddle]
    centre_hit_bounces_horizontally [of left_paddle ball_at_paddle_edge]
  by (simp add: bounce_off_paddle_def bounce_angle_def bounce_offset_def Let_def
      rect_defs entity_defs consts_defs sample_defs)

subsection \<open>Runs of operations\<close>

text \<open>
  An update always returns, and a run returns whenever each of its bounces is off a
  paddle of non-zero height.
\<close>

lemma update_returns: "\<exists>b' sl sr. update lp rp angle b = Inr (b', sl, sr)"
proof -
  obtain b1 where "before_scoring lp rp b = Inr b1"
    using before_scoring_returns by blast
  then show ?thesis
    by (cases "scoring angle b1") (simp add: update_def)
qed

lemma apply_op_returns: "bounce_defined x \<Longrightarrow> \<exists>b'. apply_op x b = Inr b'"
proof (cases x)
  case (Bounce p is_right)
  assume "bounce_defined x"
  then show ?thesis using Bounce bounce_returns [of p is_right b] by simp
next
  case (Reset d a)
  then show ?thesis by simp
next
  case (Update lp rp a)
  then show ?thesis using update_returns [of lp rp a b] by auto
qed

lemma run_returns: "list_all bounce_defined ops \<Longrightarrow> \<exists>b. run ops b0 = Inr b"
proof (induction ops arbitrary: b0)
  case Nil
  then show ?case by simp
next
  case (Cons x xs)
  then obtain b1 where "apply_op x b0 = Inr b1"
    using apply_op_returns [of x b0] by auto
  then show ?case using Cons by simp
qed


subsection \<open>The speed of the ball\<close>

lemma speed_reset [simp]: "speed (reset direction angle b) = BALL_SPEED_INITIAL"
  by (simp add: reset_def)

lemma speed_bounce:
  "bounce_off_paddle p is_right b = Inr b' \<Longrightarrow>
   speed b' = min BALL_SPEED_MAX (speed b + BALL_SPEED_INCREMENT)"
  by (auto simp: bounce_off_paddle_def Let_def split: if_splits)

lemma speed_before_scoring:
  "before_scoring lp rp b = Inr b1 \<Longrightarrow>
   speed b1 = speed b \<or> speed b1 = min BALL_SPEED_MAX (speed b + BALL_SPEED_INCREMENT)"
  by (auto simp: before_scoring_def paddle_collide_def wall_collide_def move_ball_def
      dest!: speed_bounce split: if_splits)

lemma speed_ramp:
  "speed_ok b \<Longrightarrow> s = min BALL_SPEED_MAX (speed b + BALL_SPEED_INCREMENT) \<Longrightarrow>
   BALL_SPEED_INITIAL < s \<and> s \<le> BALL_SPEED_MAX \<and> speed b \<le> s"
  by (simp add: speed_ok_def consts_defs)

lemma speed_update:
  assumes "update lp rp angle b = Inr (b', sl, sr)" and "speed_ok b"
  shows "speed_ok b' \<and> (if sl = 0 \<and> sr = 0 then speed b \<le> speed b'
                        else speed b' = BALL_SPEED_INITIAL)"
proof -
  obtain b1 where b1: "before_scoring lp rp b = Inr b1" and s: "scoring angle b1 = (b', sl, sr)"
    using assms(1) by (auto simp: update_def split: sum.splits)
  have "speed_ok b1 \<and> speed b \<le> speed b1"
    using speed_before_scoring [OF b1] speed_ramp [OF assms(2)] assms(2)
    by (auto simp: speed_ok_def)
  then show ?thesis
    using s by (auto simp: scoring_def speed_ok_def consts_defs split: if_splits)
qed

lemma speed_apply_op:
  "apply_op x b = Inr b' \<Longrightarrow> speed_ok b \<Longrightarrow> speed_ok b'"
proof (cases x)
  case (Bounce p is_right)
  assume "apply_op x b = Inr b'" "speed_ok b"
  then show ?thesis
    using Bounce speed_ramp [of b "speed b'"] speed_bounce [of p is_right b b']
    by (simp add: speed_ok_def)
next
  case (Reset d a)
  assume "apply_op x b = Inr b'" "speed_ok b"
  then show ?thesis using Reset by (auto simp: speed_ok_def consts_defs)
next
  case (Update lp rp a)
  assume "apply_op x b = Inr b'" "speed_ok b"
  then show ?thesis using Update speed_update [of lp rp a b]
    by (auto split: sum.splits)
qed

lemma speed_run: "run ops b0 = Inr b \<Longrightarrow> speed_ok b0 \<Longrightarrow> speed_ok b"
proof (induction ops arbitrary: b0)
  case Nil
  then show ?case by simp
next
  case (Cons x xs)
  then show ?case
    by (auto split: sum.splits dest: speed_apply_op)
qed

text \<open>
  Claim C2. Take a ball constructed with speed \<open>BALL_SPEED_INITIAL\<close> and any sequence of
  bounces, resets and updates that runs to its end. The ball \<open>b\<close> it leaves has
  \<open>BALL_SPEED_INITIAL \<le> speed b \<le> BALL_SPEED_MAX\<close>. From there a bounce sets the speed to
  \<open>min BALL_SPEED_MAX (speed b + BALL_SPEED_INCREMENT)\<close>, which is not below the old speed
  and is above \<open>BALL_SPEED_INITIAL\<close>;
  a reset sets it to \<open>BALL_SPEED_INITIAL\<close>; and an update that scores nothing does not
  lower it, while an update that scores (and so resets) sets it to \<open>BALL_SPEED_INITIAL\<close>.
\<close>

theorem speed_within_bounds:
  assumes "Ball r BALL_SPEED_INITIAL angle direction = Inr b0"
    and "run ops b0 = Inr b"
  shows "BALL_SPEED_INITIAL \<le> speed b \<and> speed b \<le> BALL_SPEED_MAX
     \<and> (\<forall>p is_right b'. bounce_off_paddle p is_right b = Inr b' \<longrightarrow>
           speed b' = min BALL_SPEED_MAX (speed b + BALL_SPEED_INCREMENT)
           \<and> speed b \<le> speed b' \<and> BALL_SPEED_INITIAL < speed b')
     \<and> (\<forall>d a. speed (reset d a b) = BALL_SPEED_INITIAL)
     \<and> (\<forall>lp rp a b' sl sr. update lp rp a b = Inr (b', sl, sr) \<longrightarrow>
           (if sl = 0 \<and> sr = 0 then speed b \<le> speed b'
            else speed b' = BALL_SPEED_INITIAL))"
proof -
  have "speed_ok b0"
    using assms(1) by (auto simp: Ball_def speed_ok_def consts_defs)
  then have ok: "speed_ok b"
    using assms(2) by (rule speed_run [rotated])
  have bounce: "speed b' = min BALL_SPEED_MAX (speed b + BALL_SPEED_INCREMENT)
      \<and> speed b \<le> speed b' \<and> BALL_SPEED_INITIAL < speed b'"
    if "bounce_off_paddle p is_right b = Inr b'" for p is_right b'
    using speed_bounce [OF that] speed_ramp [OF ok] by simp
  have upd: "if sl = 0 \<and> sr = 0 then speed b \<le> speed b' else speed b' = BALL_SPEED_INITIAL"
    if "update lp rp a b = Inr (b', sl, sr)" for lp rp a b' sl sr
    using speed_update [OF that ok] by simp
  have inv: "BALL_SPEED_INITIAL \<le> speed b \<and> speed b \<le> BALL_SPEED_MAX"
    using ok by (simp add: speed_ok_def)
  have rs: "\<forall>d a. speed (reset d a b) = BALL_SPEED_INITIAL"
    by simp
  show ?thesis
    using inv bounce upd rs by blast
qed

theorem speed_within_bounds_witness:
  "Ball ball_rect BALL_SPEED_INITIAL 0 1 =
     Inr \<lparr>rect = ball_rect, vx = 6, vy = 0, speed = 6\<rparr>
   \<and> run rally \<lparr>rect = ball_rect, vx = 6, vy = 0, speed = 6\<rparr> =
     Inr \<lparr>rect = \<lparr>rx = 744, ry = 294, rw = 12, rh = 12\<rparr>,
          vx = - (635 / 100), vy = 0, speed = 635 / 100\<rparr>
   \<and> BALL_SPEED_INITIAL \<le> 635 / 100 \<and> 635 / 100 \<le> BALL_SPEED_MAX"
proof -
  have i: "Ball ball_rect BALL_SPEED_INITIAL 0 1 =
      Inr \<lparr>rect = ball_rect, vx = 6, vy = 0, speed = 6\<rparr>"
    by (simp add: Ball_def consts_defs)
  have r: "run rally \<lparr>rect = ball_rect, vx = 6, vy = 0, speed = 6\<rparr> =
      Inr \<lparr>rect = \<lparr>rx = 744, ry = 294, rw = 12, rh = 12\<rparr>,
           vx = - (635 / 100), vy = 0, speed = 635 / 100\<rparr>"
    by (simp add: rally_def update_def scoring_def before_scoring_def paddle_collide_def
        wall_collide_def move_ball_def colliderect_def bounce_off_paddle_def bounce_angle_def
        bounce_offset_def reset_def Let_def rect_defs entity_defs consts_defs py_int_def)
  show ?thesis
    using speed_within_bounds [OF i r] i r by simp
qed

subsection \<open>The magnitude of the velocity\<close>

lemma polar_magnitude:
  assumes "0 \<le> s" and "d = 1 \<or> d = - 1"
  shows "sqrt ((cos a * s * d)\<^sup>2 + (sin a * s)\<^sup>2) = s"
proof -
  have d2: "d\<^sup>2 = 1" using assms(2) by auto
  have "(cos a * s * d)\<^sup>2 + (sin a * s)\<^sup>2 = s\<^sup>2 * ((cos a)\<^sup>2 * d\<^sup>2 + (sin a)\<^sup>2)"
    by (simp add: power_mult_distrib algebra_simps)
  also have "\<dots> = s\<^sup>2" by (simp add: d2)
  finally show ?thesis using assms(1) by simp
qed

lemma magnitude_nonneg: "magnitude_ok b \<Longrightarrow> 0 \<le> speed b"
  unfolding magnitude_ok_def by (metis real_sqrt_ge_zero sum_power2_ge_zero)

lemma magnitude_Ball:
  assumes "Ball r sp angle direction = Inr b" and "0 \<le> sp"
    and "direction = 1 \<or> direction = - 1"
  shows "magnitude_ok b"
proof -
  have "real_of_int direction = 1 \<or> real_of_int direction = - 1"
    using assms(3) by auto
  then show ?thesis
    using assms(1) polar_magnitude [OF assms(2), of "real_of_int direction" angle]
    by (auto simp: Ball_def magnitude_ok_def)
qed

lemma magnitude_reset:
  assumes "direction = 1 \<or> direction = - 1"
  shows "magnitude_ok (reset direction angle b)"
proof -
  have "real_of_int direction = 1 \<or> real_of_int direction = - 1"
    using assms by auto
  moreover have "0 \<le> BALL_SPEED_INITIAL" by (simp add: BALL_SPEED_INITIAL_def)
  ultimately show ?thesis
    using polar_magnitude [of BALL_SPEED_INITIAL "real_of_int direction" angle]
    by (simp add: reset_def magnitude_ok_def)
qed

lemma magnitude_bounce:
  assumes "bounce_off_paddle p is_right b = Inr b'" and "0 \<le> speed b"
  shows "magnitude_ok b'"
proof -
  let ?s = "min BALL_SPEED_MAX (speed b + BALL_SPEED_INCREMENT)"
  let ?d = "if is_right then - 1 else 1 :: real"
  have s: "0 \<le> ?s" using assms(2) by (simp add: consts_defs)
  have d: "?d = 1 \<or> ?d = - 1" by simp
  have h: "rh (p_rect p) \<noteq> 0"
    using assms(1) by (auto simp: bounce_off_paddle_def Let_def split: if_splits)
  have "speed b' = ?s \<and> vx b' = cos (bounce_angle p b) * ?s * ?d
      \<and> vy b' = sin (bounce_angle p b) * ?s"
    using bounce_result [OF h, of is_right b] assms(1) by auto
  then show ?thesis
    using polar_magnitude [OF s d, of "bounce_angle p b"] by (simp add: magnitude_ok_def)
qed

lemma magnitude_before_scoring:
  assumes "before_scoring lp rp b = Inr b1" and "magnitude_ok b"
  shows "magnitude_ok b1"
proof -
  let ?w = "wall_collide (move_ball b)"
  have w: "magnitude_ok ?w"
    using assms(2) by (simp add: magnitude_ok_def wall_collide_def move_ball_def)
  then have "0 \<le> speed ?w" by (rule magnitude_nonneg)
  then show ?thesis
    using assms(1) w magnitude_bounce [of _ _ ?w b1]
    by (auto simp: before_scoring_def paddle_collide_def split: if_splits)
qed

lemma magnitude_update:
  assumes "update lp rp angle b = Inr (b', sl, sr)" and "magnitude_ok b"
  shows "magnitude_ok b'"
proof -
  obtain b1 where b1: "before_scoring lp rp b = Inr b1" and s: "scoring angle b1 = (b', sl, sr)"
    using assms(1) by (auto simp: update_def split: sum.splits)
  have "magnitude_ok b1" using b1 assms(2) by (rule magnitude_before_scoring)
  then show ?thesis
    using s magnitude_reset [of "- 1" angle b1] magnitude_reset [of 1 angle b1]
    by (auto simp: scoring_def split: if_splits)
qed

lemma magnitude_apply_op:
  assumes "apply_op x b = Inr b'" and "magnitude_ok b" and "unit_direction x"
  shows "magnitude_ok b'"
proof (cases x)
  case (Bounce p is_right)
  then show ?thesis
    using assms magnitude_bounce [of p is_right b b'] magnitude_nonneg [of b] by simp
next
  case (Reset d a)
  then show ?thesis using assms magnitude_reset [of d a b] by auto
next
  case (Update lp rp a)
  then show ?thesis using assms magnitude_update [of lp rp a b]
    by (auto split: sum.splits)
qed

lemma magnitude_run:
  "run ops b0 = Inr b \<Longrightarrow> magnitude_ok b0 \<Longrightarrow> list_all unit_direction ops \<Longrightarrow>
   magnitude_ok b"
proof (induction ops arbitrary: b0)
  case Nil
  then show ?case by simp
next
  case (Cons x xs)
  then show ?case
    by (auto split: sum.splits dest: magnitude_apply_op)
qed

text \<open>
  Claim C3. Take a ball constructed with a non-negative speed and a direction \<open>+1\<close> or
  \<open>-1\<close>, and any sequence of bounces, resets (with direction \<open>+1\<close> or \<open>-1\<close>) and updates
  that runs to its end. In real arithmetic the velocity of the ball it leaves has
  magnitude exactly the speed scalar: \<open>sqrt (vx\<^sup>2 + vy\<^sup>2) = speed\<close>.
\<close>

theorem velocity_magnitude_is_speed:
  assumes "Ball r sp angle direction = Inr b0" and "0 \<le> sp"
    and "direction = 1 \<or> direction = - 1"
    and "list_all unit_direction ops" and "run ops b0 = Inr b"
  shows "sqrt ((vx b)\<^sup>2 + (vy b)\<^sup>2) = speed b"
proof -
  have "magnitude_ok b0" using assms(1,2,3) by (rule magnitude_Ball)
  with assms(5) have "magnitude_ok b" using assms(4) by (rule magnitude_run)
  then show ?thesis by (simp add: magnitude_ok_def)
qed

theorem velocity_magnitude_is_speed_witness:
  "Ball ball_rect BALL_SPEED_INITIAL 0 1 =
     Inr \<lparr>rect = ball_rect, vx = 6, vy = 0, speed = 6\<rparr>
   \<and> 0 \<le> BALL_SPEED_INITIAL \<and> ((1::int) = 1 \<or> (1::int) = - 1)
   \<and> list_all unit_direction rally
   \<and> run rally \<lparr>rect = ball_rect, vx = 6, vy = 0, speed = 6\<rparr> =
     Inr \<lparr>rect = \<lparr>rx = 744, ry = 294, rw = 12, rh = 12\<rparr>,
          vx = - (635 / 100), vy = 0, speed = 635 / 100\<rparr>
   \<and> sqrt ((- (635 / 100))\<^sup>2 + 0\<^sup>2) = (635 / 100 :: real)"
proof -
  have i: "Ball ball_rect BALL_SPEED_INITIAL 0 1 =
      Inr \<lparr>rect = ball_rect, vx = 6, vy = 0, speed = 6\<rparr>"
    by (simp add: Ball_def consts_defs)
  have s: "0 \<le> BALL_SPEED_INITIAL" by (simp add: consts_defs)
  have d: "(1::int) = 1 \<or> (1::int) = - 1" by simp
  have u: "list_all unit_direction rally" by (simp add: rally_def)
  have r: "run rally \<lparr>rect = ball_rect, vx = 6, vy = 0, speed = 6\<rparr> =
      Inr \<lparr>rect = \<lparr>rx = 744, ry = 294, rw = 12, rh = 12\<rparr>,
           vx = - (635 / 100), vy = 0, speed = 635 / 100\<rparr>"
    by (simp add: rally_def update_def scoring_def before_scoring_def paddle_collide_def
        wall_collide_def move_ball_def colliderect_def bounce_off_paddle_def bounce_angle_def
        bounce_offset_def reset_def Let_def rect_defs entity_defs consts_defs py_int_def)
  show ?thesis
    using velocity_magnitude_is_speed [OF i s d u r] i s u r by simp
qed

subsection \<open>AIPaddleController.update\<close>







lemma ai_sigma_mono:
  assumes "rect_centerx (rect b2) \<le> rect_centerx (rect b1)" and "\<bar>vx b1\<bar> \<le> \<bar>vx b2\<bar>"
  shows "ai_sigma b1 \<le> ai_sigma b2"
proof -
  have d: "real_of_int (max 1 (WIDTH - rect_centerx (rect b1)))
      \<le> real_of_int (max 1 (WIDTH - rect_centerx (rect b2)))"
    using assms(1) by simp
  have v: "max 1 \<bar>vx b1\<bar> \<le> max 1 \<bar>vx b2\<bar>"
    using assms(2) by simp
  have "8 + real_of_int (max 1 (WIDTH - rect_centerx (rect b1))) / 20 + max 1 \<bar>vx b1\<bar> * (12 / 10)
      \<le> 8 + real_of_int (max 1 (WIDTH - rect_centerx (rect b2))) / 20 + max 1 \<bar>vx b2\<bar> * (12 / 10)"
    using d v by linarith
  then show ?thesis
    unfolding ai_sigma_def Let_def by (rule min.mono [OF order_refl])
qed

text \<open>
  Claim C7, as amended. On a recompute while the ball approaches (\<open>vx > 0\<close>), the new
  target is the ball's vertical centre plus the draw \<open>gauss 0 sigma z\<close>, which is the
  standard normal draw \<open>z\<close> scaled by \<open>sigma\<close>, and the timestamp is recorded. The
  standard deviation is \<open>min 80 (8 + max 1 (WIDTH - centerx) / 20 + max 1 \<bar>vx\<bar> * 1.2)\<close>:
  it is computed from the distance of the ball's centre to the right edge of the field
  and from the magnitude of the ball's horizontal velocity, each at least 1, and it does
  not decrease when that distance or that magnitude grows.
\<close>

theorem ai_target_noise:
  "(should_update now a \<and> vx b > 0 \<longrightarrow>
      target_center_y (fst (AI_update now z a b p)) =
        real_of_int (rect_centery (rect b)) + gauss 0 (ai_sigma b) z
      \<and> last_update_time (fst (AI_update now z a b p)) = now)
   \<and> gauss 0 (ai_sigma b) z = z * ai_sigma b
   \<and> ai_sigma b =
       min 80 (8 + real_of_int (max 1 (WIDTH - rect_centerx (rect b))) / 20
                 + max 1 \<bar>vx b\<bar> * (12 / 10))
   \<and> (rect_centerx (rect b') \<le> rect_centerx (rect b) \<and> \<bar>vx b\<bar> \<le> \<bar>vx b'\<bar> \<longrightarrow>
        ai_sigma b \<le> ai_sigma b')"
  using ai_sigma_mono [of b' b]
  by (simp add: AI_update_def retarget_def gauss_def Let_def ai_sigma_def)


theorem ai_target_noise_witness:
  "should_update 120 AIPaddleController \<and> vx ball_in_play > 0
   \<and> rect_centerx (rect ball_past_left) \<le> rect_centerx (rect ball_in_play)
   \<and> \<bar>vx ball_in_play\<bar> \<le> \<bar>vx ball_past_left\<bar>
   \<and> target_center_y (fst (AI_update 120 1 AIPaddleController ball_in_play right_paddle))
       = 300 + 808 / 25
   \<and> ai_sigma ball_in_play = 808 / 25
   \<and> ai_sigma ball_in_play \<le> ai_sigma ball_past_left"
proof -
  have h1: "should_update 120 AIPaddleController \<and> vx ball_in_play > 0"
    by (simp add: should_update_def AIPaddleController_def sample_defs)
  have h2: "rect_centerx (rect ball_past_left) \<le> rect_centerx (rect ball_in_play)
      \<and> \<bar>vx ball_in_play\<bar> \<le> \<bar>vx ball_past_left\<bar>"
    by (simp add: sample_defs rect_defs)
  note t = ai_target_noise [of 120 AIPaddleController ball_in_play 1 right_paddle ball_past_left]
  have a: "target_center_y (fst (AI_update 120 1 AIPaddleController ball_in_play right_paddle))
      = real_of_int (rect_centery (rect ball_in_play)) + gauss 0 (ai_sigma ball_in_play) 1"
    using t h1 by blast
  have g: "gauss 0 (ai_sigma ball_in_play) 1 = 1 * ai_sigma ball_in_play"
    using t by blast
  have m: "ai_sigma ball_in_play \<le> ai_sigma ball_past_left"
    using t h2 by blast
  have s: "ai_sigma ball_in_play = 808 / 25"
    by (simp add: ai_sigma_def Let_def sample_defs rect_defs consts_defs)
  have c: "real_of_int (rect_centery (rect ball_in_play)) = 300"
    by (simp add: sample_defs rect_defs)
  have tgt: "target_center_y (fst (AI_update 120 1 AIPaddleController ball_in_play right_paddle))
      = 300 + 808 / 25"
    using a g s c by linarith
  show ?thesis
    using h1 h2 m s tgt by blast
qed

text \<open>
  The claim as stated, a standard deviation computed from the distance to the paddle and
  from the ball's speed, fails. For the ball at the centre of the field with velocity
  \<open>(3.6, 4.8)\<close> and speed 6 the source gives 32.32; the claimed formula gives 33 for the
  distance from the ball's centre to the paddle, 32.7 for the distance from the ball's
  right edge to the paddle, and 35.2 for the distance to the right edge of the field.
\<close>

theorem ai_sigma_counterexample:
  "should_update 120 AIPaddleController \<and> vx ball_in_play > 0
   \<and> ai_sigma ball_in_play = 808 / 25
   \<and> sigma_as_claimed
        (real_of_int (rect_left (p_rect right_paddle) - rect_centerx (rect ball_in_play)))
        (speed ball_in_play) = 33
   \<and> sigma_as_claimed
        (real_of_int (rect_left (p_rect right_paddle) - rect_right (rect ball_in_play)))
        (speed ball_in_play) = 327 / 10
   \<and> sigma_as_claimed
        (real_of_int (WIDTH - rect_centerx (rect ball_in_play)))
        (speed ball_in_play) = 176 / 5
   \<and> ai_sigma ball_in_play \<noteq>
       sigma_as_claimed
        (real_of_int (rect_left (p_rect right_paddle) - rect_centerx (rect ball_in_play)))
        (speed ball_in_play)
   \<and> target_center_y (fst (AI_update 120 1 AIPaddleController ball_in_play right_paddle))
       = 300 + 808 / 25"
  by (simp add: AI_update_def retarget_def should_update_def AIPaddleController_def gauss_def
      ai_sigma_def sigma_as_claimed_def Let_def sample_defs entity_defs rect_defs consts_defs)

subsection \<open>The constructors\<close>

text \<open>
  Claim C10, as amended. The constructors of the paddle and of the ball validate
  nothing: for every rectangle, speed, angle and direction, also with non-positive
  dimensions, a paddle as high as the field or higher, or a speed above the maximum,
  they return the entity with the fields as given and raise no error.
\<close>

theorem constructors_do_not_validate:
  "Paddle r s = Inr \<lparr>p_rect = r, p_speed = s\<rparr>
   \<and> Ball r sp angle direction =
       Inr \<lparr>rect = r, vx = cos angle * sp * real_of_int direction,
            vy = sin angle * sp, speed = sp\<rparr>"
  by (simp add: Paddle_def Ball_def)

text \<open>
  The claim as stated, a configuration error for a configuration that violates the
  preconditions, fails: a paddle of negative width and higher than the field, and a ball
  faster than \<open>BALL_SPEED_MAX\<close>, are constructed.
\<close>

theorem constructors_fail_fast_counterexample:
  "rw bad_rect \<le> 0 \<and> HEIGHT \<le> rh bad_rect \<and> BALL_SPEED_MAX < 13
   \<and> \<not> isl (Paddle bad_rect 6) \<and> \<not> isl (Ball bad_rect 13 0 1)"
  by (simp add: Paddle_def Ball_def bad_rect_def consts_defs)


end
